theory Spec2Isabelle
  imports Complex_Main
begin

section \<open>Fixed-rate mortgage calculations (\<^verbatim>\<open>mortgage.py\<close>)\<close>

text \<open>
  The module has four functions over numbers (\<^verbatim>\<open>get_min_payment\<close>,
  \<^verbatim>\<open>interest_due\<close>, \<^verbatim>\<open>remaining_payments\<close>, \<^verbatim>\<open>main\<close>), the validation
  of the command line (\<^verbatim>\<open>parse_args\<close>) and the script body under
  \<^verbatim>\<open>if __name__ == "__main__"\<close>.

  Number types. The command line gives the mortgage amount, the interest rate and the
  target payment as Python \<^verbatim>\<open>float\<close>s and the years and payments per year as Python
  \<^verbatim>\<open>int\<close>s. Python's unbounded \<^verbatim>\<open>int\<close> is \<^typ>\<open>int\<close>. A \<^verbatim>\<open>float\<close> is an IEEE-754
  double: a \<^typ>\<open>real\<close> with a significand of 53 bits, and every float operation of the
  source is the exact operation followed by rounding to the nearest double, ties to
  the even significand (\<open>round_double\<close>).

  What the model leaves out: the exponent of a double is not bounded here, so a sum,
  difference, product or quotient never becomes \<^verbatim>\<open>inf\<close> and never loses bits to a
  subnormal, and \<^verbatim>\<open>inf\<close> and \<^verbatim>\<open>nan\<close> are not values; the one overflow in the model is
  the \<^verbatim>\<open>OverflowError\<close> that \<^verbatim>\<open>**\<close> raises. The power is taken as correctly rounded,
  which the C library promises only within one unit in the last place; the evaluations
  below use powers that are exact, or one (\<^verbatim>\<open>1.25 ** 200\<close>) whose last bit does not
  change the result.

  The parameter \<^verbatim>\<open>principal\<close> is written \<open>principal'\<close>, the plain name being a constant of
  the library.
\<close>

subsection \<open>Rounding to a double\<close>

text \<open>
  \<open>round_even q\<close> is the integer nearest to \<open>q\<close>, the even one of the two when \<open>q\<close> is
  halfway. \<open>round_double x\<close> scales \<open>x\<close> by the power of two that brings its magnitude
  between \<^verbatim>\<open>2^52\<close> and \<^verbatim>\<open>2^53\<close>, rounds to an integer and scales back.
\<close>

definition round_even :: "real \<Rightarrow> int" where
  "round_even q =
     (let f = \<lfloor>q\<rfloor>; d = q - of_int f in
      if d < 1 / 2 then f else if 1 / 2 < d then f + 1 else if even f then f else f + 1)"

definition round_double :: "real \<Rightarrow> real" where
  "round_double x =
     (if x = 0 then 0
      else (let e = \<lfloor>log 2 \<bar>x\<bar>\<rfloor> - 52 in of_int (round_even (x / 2 powi e)) * 2 powi e))"

subsection \<open>Exceptions and float operations\<close>

datatype py_error =
    ZeroDivisionError
  | OverflowError
  | ValueError string
  | SystemExit int

text \<open>
  An \<^verbatim>\<open>int\<close> operand of a float operation is converted to the nearest double first
  (\<^verbatim>\<open>float(n)\<close>).
\<close>

definition py_float :: "int \<Rightarrow> real" where
  "py_float n = round_double (of_int n)"

definition py_add :: "real \<Rightarrow> real \<Rightarrow> real" where
  "py_add a b = round_double (a + b)"

definition py_sub :: "real \<Rightarrow> real \<Rightarrow> real" where
  "py_sub a b = round_double (a - b)"

definition py_mul :: "real \<Rightarrow> real \<Rightarrow> real" where
  "py_mul a b = round_double (a * b)"

text \<open>\<^verbatim>\<open>a / b\<close> on floats: Python raises \<^verbatim>\<open>ZeroDivisionError\<close> when \<^verbatim>\<open>b\<close> is zero.\<close>

definition py_div :: "real \<Rightarrow> real \<Rightarrow> py_error + real" where
  "py_div a b = (if b = 0 then Inl ZeroDivisionError else Inr (round_double (a / b)))"

text \<open>
  \<^verbatim>\<open>x ** n\<close> with a float base and an int exponent: the exponent is converted to a
  double (an integer again), \<^verbatim>\<open>0.0\<close> to a negative power raises \<^verbatim>\<open>ZeroDivisionError\<close>, and
  a result beyond the largest double raises \<^verbatim>\<open>OverflowError\<close>.
\<close>

definition py_pow :: "real \<Rightarrow> int \<Rightarrow> py_error + real" where
  "py_pow x n =
     (if x = 0 \<and> n < 0 then Inl ZeroDivisionError
      else (let y = round_double (x powi \<lfloor>py_float n\<rfloor>) in
            if 2 ^ 1024 \<le> \<bar>y\<bar> then Inl OverflowError else Inr y))"

subsection \<open>The minimum payment\<close>

text \<open>
  \<^verbatim>\<open>
  P = principal
  r = annual_interest_rate / num_of_payments
  n = term * num_of_payments
  A = P * (r*(1+r)**n) / (((1 + r) ** n) - 1)
  min_payment = math.ceil(A)
  return min_payment
  \<close>
  The operands are evaluated left to right: the numerator (with its power) first, then
  the denominator (with its power), then the division.
\<close>

definition get_min_payment :: "real \<Rightarrow> real \<Rightarrow> int \<Rightarrow> int \<Rightarrow> py_error + int" where
  "get_min_payment principal' annual_interest_rate term num_of_payments =
     (let P = principal' in
      case py_div annual_interest_rate (py_float num_of_payments) of
        Inl e \<Rightarrow> Inl e
      | Inr r \<Rightarrow>
          let n = term * num_of_payments in
          (case py_pow (py_add 1 r) n of
             Inl e \<Rightarrow> Inl e
           | Inr pw_num \<Rightarrow>
               (case py_pow (py_add 1 r) n of
                  Inl e \<Rightarrow> Inl e
                | Inr pw_den \<Rightarrow>
                    (case py_div (py_mul P (py_mul r pw_num)) (py_sub pw_den 1) of
                       Inl e \<Rightarrow> Inl e
                     | Inr A \<Rightarrow> Inr \<lceil>A\<rceil>))))"

subsection \<open>The interest of one payment\<close>

text \<open>
  \<^verbatim>\<open>
  b = balance_of_mortgage
  r = annual_interest_rate / num_of_payments
  i = b * r
  return i
  \<close>
\<close>

definition interest_due :: "real \<Rightarrow> real \<Rightarrow> int \<Rightarrow> py_error + real" where
  "interest_due balance_of_mortgage annual_interest_rate num_of_payments =
     (let b = balance_of_mortgage in
      case py_div annual_interest_rate (py_float num_of_payments) of
        Inl e \<Rightarrow> Inl e
      | Inr r \<Rightarrow> Inr (py_mul b r))"

subsection \<open>The payoff loop\<close>

text \<open>
  \<^verbatim>\<open>
  payments = 0
  while balance_of_mortgage > 0:
      interest = interest_due(balance_of_mortgage, annual_interest_rate, num_of_payments)
      principal_payment = target_payment - interest
      balance_of_mortgage -= principal_payment
      payments += 1
  return payments
  \<close>
  The loop has no bound, so it is a partial function: \<open>None\<close> is a loop that never
  ends, \<open>Some (Inl e)\<close> a loop that raises \<open>e\<close>, \<open>Some (Inr k)\<close> a loop that returns
  \<open>k\<close>. The loop state is the balance and the counter. The target payment is an
  \<^verbatim>\<open>int\<close> when \<^verbatim>\<open>main\<close> passes the minimum payment, and the subtraction converts it to
  a double; a target that is a double already is left as it is by the conversion.
\<close>

partial_function (option) payoff_loop ::
  "real \<Rightarrow> real \<Rightarrow> int \<Rightarrow> real \<Rightarrow> int \<Rightarrow> (py_error + int) option" where
  "payoff_loop annual_interest_rate target_payment num_of_payments balance_of_mortgage payments =
     (if balance_of_mortgage > 0 then
        (case interest_due balance_of_mortgage annual_interest_rate num_of_payments of
           Inl e \<Rightarrow> Some (Inl e)
         | Inr interest \<Rightarrow>
             (let principal_payment = py_sub (round_double target_payment) interest in
              payoff_loop annual_interest_rate target_payment num_of_payments
                (py_sub balance_of_mortgage principal_payment) (payments + 1)))
      else Some (Inr payments))"

declare payoff_loop.simps [code]

definition remaining_payments :: "real \<Rightarrow> real \<Rightarrow> real \<Rightarrow> int \<Rightarrow> (py_error + int) option" where
  "remaining_payments balance_of_mortgage annual_interest_rate target_payment num_of_payments =
     payoff_loop annual_interest_rate target_payment num_of_payments balance_of_mortgage 0"

subsection \<open>The report\<close>

text \<open>
  \<^verbatim>\<open>main\<close> prints; the model returns what was printed. A line is kept as its template
  and the values put into it:
  \<^item> \<open>MinimumPayment m\<close> is \<^verbatim>\<open>Minimum Payment: $m\<close>;
  \<^item> \<open>TooLow\<close> is \<^verbatim>\<open>Your target payment is less than the minimum payment for this mortgage.\<close>;
  \<^item> \<open>Payoff t k\<close> is \<^verbatim>\<open>If you make payments of $t, you will pay off the mortgage in k payments.\<close>;
  \<^item> \<open>Help\<close> is the help text that \<^verbatim>\<open>argparse\<close> prints for \<^verbatim>\<open>-h\<close>.
\<close>

datatype line =
    MinimumPayment int
  | TooLow
  | Payoff real int
  | Help

text \<open>
  \<^verbatim>\<open>
  min_payment = get_min_payment(principal, annual_interest_rate, years, num_of_payments)
  print(f"Minimum Payment: ${min_payment}")
  if target_payment is None:
      target_payment = min_payment
  if target_payment < min_payment:
      print("Your target payment is less than ...")
  else:
      total_payments = remaining_payments(principal, annual_interest_rate,
                                          target_payment, num_of_payments)
      print(f"If you make payments of ${target_payment}, ... in {total_payments} payments.")
  \<close>
  The result is \<open>None\<close> when \<^verbatim>\<open>main\<close> never returns, and otherwise the lines printed
  together with the exception that ended the call, if one did. Python compares a float
  with an int by their exact values.
\<close>

definition main ::
  "real \<Rightarrow> real \<Rightarrow> int \<Rightarrow> int \<Rightarrow> real option \<Rightarrow> (line list \<times> py_error option) option" where
  "main principal' annual_interest_rate years num_of_payments target_payment =
     (case get_min_payment principal' annual_interest_rate years num_of_payments of
        Inl e \<Rightarrow> Some ([], Some e)
      | Inr min_payment \<Rightarrow>
          (let target_payment' =
                 (case target_payment of None \<Rightarrow> of_int min_payment | Some t \<Rightarrow> t)
           in
           if target_payment' < of_int min_payment then
             Some ([MinimumPayment min_payment, TooLow], None)
           else
             (case remaining_payments principal' annual_interest_rate target_payment'
                     num_of_payments of
                None \<Rightarrow> None
              | Some (Inl e) \<Rightarrow> Some ([MinimumPayment min_payment], Some e)
              | Some (Inr total_payments) \<Rightarrow>
                  Some ([MinimumPayment min_payment, Payoff target_payment' total_payments],
                        None))))"

subsection \<open>The command line\<close>

text \<open>The namespace that \<^verbatim>\<open>argparse\<close> returns: the five arguments, converted.\<close>

record args =
  mortgage_amount :: real
  annual_interest_rate :: real
  years :: int
  num_annual_payments :: int
  target_payment :: "real option"

text \<open>
  The \<^verbatim>\<open>ArgumentParser\<close> with its five \<^verbatim>\<open>add_argument\<close> calls is library code: it is
  a parameter, a function from an argument vector to a namespace or to the exception
  that \<^verbatim>\<open>argparse\<close> raises (\<^verbatim>\<open>SystemExit\<close>).
\<close>

type_synonym argument_parser = "string list \<Rightarrow> py_error + args"

text \<open>
  \<^verbatim>\<open>
  args = parser.parse_args()
  if args.mortgage_amount < 0:
      raise ValueError("mortgage amount must be positive")
  if not 0 <= args.annual_interest_rate <= 1:
      raise ValueError("annual interest rate must be between 0 and 1")
  if args.years < 1:
      raise ValueError("years must be positive")
  if args.num_annual_payments < 0:
      raise ValueError("number of payments per year must be positive")
  if args.target_payment and args.target_payment < 0:
      raise ValueError("target payment must be positive")
  return args
  \<close>
  \<^verbatim>\<open>parser.parse_args()\<close> is called without an argument, and \<^verbatim>\<open>argparse\<close> then reads
  \<^verbatim>\<open>sys.argv[1:]\<close>. \<^verbatim>\<open>sys.argv\<close> is process state, so it is a parameter of the model.
  \<^verbatim>\<open>args.target_payment\<close> is false as a condition when it is \<^verbatim>\<open>None\<close> or zero.
\<close>

definition parse_args :: "argument_parser \<Rightarrow> string list \<Rightarrow> string list \<Rightarrow> py_error + args" where
  "parse_args parser sys_argv arglist =
     (case parser (drop 1 sys_argv) of
        Inl e \<Rightarrow> Inl e
      | Inr a \<Rightarrow>
          if mortgage_amount a < 0 then
            Inl (ValueError ''mortgage amount must be positive'')
          else if \<not> (0 \<le> annual_interest_rate a \<and> annual_interest_rate a \<le> 1) then
            Inl (ValueError ''annual interest rate must be between 0 and 1'')
          else if years a < 1 then
            Inl (ValueError ''years must be positive'')
          else if num_annual_payments a < 0 then
            Inl (ValueError ''number of payments per year must be positive'')
          else if (case target_payment a of None \<Rightarrow> False | Some t \<Rightarrow> t \<noteq> 0 \<and> t < 0) then
            Inl (ValueError ''target payment must be positive'')
          else Inr a)"

subsection \<open>The script\<close>

text \<open>
  \<^verbatim>\<open>
  try:
      args = parse_args(sys.argv[1:])
  except ValueError as e:
      sys.exit(str(e))
  main(args.mortgage_amount, args.annual_interest_rate, args.years,
       args.num_annual_payments, args.target_payment)
  \<close>
  What the process leaves behind: the lines on standard output, what went to standard
  error, and the exit status. \<^verbatim>\<open>sys.exit\<close> with a string prints the string to standard
  error and exits with status 1; an exception that nothing catches prints a stack trace
  and exits with status 1. \<^verbatim>\<open>SystemExit\<close> comes from \<^verbatim>\<open>argparse\<close>, which has printed
  before it raises: the help text on standard output when the status is 0, the usage
  and the error on standard error otherwise.
\<close>

datatype err_output =
    Message string
  | Traceback py_error
  | Usage

record process =
  stdout :: "line list"
  stderr :: "err_output list"
  status :: int

definition script :: "argument_parser \<Rightarrow> string list \<Rightarrow> process option" where
  "script parser sys_argv =
     (case parse_args parser sys_argv (drop 1 sys_argv) of
        Inl (ValueError e) \<Rightarrow> Some \<lparr>stdout = [], stderr = [Message e], status = 1\<rparr>
      | Inl (SystemExit c) \<Rightarrow>
          Some (if c = 0 then \<lparr>stdout = [Help], stderr = [], status = 0\<rparr>
                else \<lparr>stdout = [], stderr = [Usage], status = c\<rparr>)
      | Inl ZeroDivisionError \<Rightarrow>
          Some \<lparr>stdout = [], stderr = [Traceback ZeroDivisionError], status = 1\<rparr>
      | Inl OverflowError \<Rightarrow>
          Some \<lparr>stdout = [], stderr = [Traceback OverflowError], status = 1\<rparr>
      | Inr a \<Rightarrow>
          (case main (mortgage_amount a) (annual_interest_rate a) (years a)
                  (num_annual_payments a) (target_payment a) of
             None \<Rightarrow> None
           | Some (out, None) \<Rightarrow> Some \<lparr>stdout = out, stderr = [], status = 0\<rparr>
           | Some (out, Some e) \<Rightarrow> Some \<lparr>stdout = out, stderr = [Traceback e], status = 1\<rparr>))"

subsection \<open>Exact arithmetic, for comparison\<close>


definition annuity :: "real \<Rightarrow> nat \<Rightarrow> real \<Rightarrow> real" where
  "annuity \<rho> n P = P * (\<rho> * (1 + \<rho>) ^ n) / ((1 + \<rho>) ^ n - 1)"



section \<open>Rounding\<close>

subsection \<open>Values that are doubles\<close>

lemma round_even_of_int [simp]: "round_even (of_int k) = k"
  by (simp add: round_even_def)

lemma round_even_ge_floor: "\<lfloor>q\<rfloor> \<le> round_even q"
  by (simp add: round_even_def Let_def)

lemma round_even_le_floor: "round_even q \<le> \<lfloor>q\<rfloor> + 1"
  by (simp add: round_even_def Let_def)

lemma round_double_zero [simp]: "round_double 0 = 0"
  by (simp add: round_double_def)

lemma floor_log2_binade:
  assumes "2 powi e \<le> \<bar>x\<bar>" "\<bar>x\<bar> < 2 powi (e + 1)"
  shows "\<lfloor>log 2 \<bar>x\<bar>\<rfloor> = e"
proof -
  have pos: "0 < \<bar>x\<bar>" using assms(1) zero_less_power_int [of "2::real" e] by linarith
  have "(2::real) powr real_of_int e = 2 powi e" "(2::real) powr (real_of_int e + 1) = 2 powi (e + 1)"
    using powr_real_of_int' [of "2::real" e] powr_real_of_int' [of "2::real" "e + 1"] by simp_all
  then show ?thesis using assms pos by (simp add: floor_log_eq_powr_iff)
qed

lemma round_double_binade:
  assumes "2 powi e \<le> \<bar>x\<bar>" "\<bar>x\<bar> < 2 powi (e + 1)"
  shows "round_double x = of_int (round_even (x / 2 powi (e - 52))) * 2 powi (e - 52)"
proof -
  have p: "0 < (2::real) powi e" by simp
  have "x \<noteq> 0"
  proof
    assume "x = 0"
    then have "\<bar>x\<bar> = 0" by simp
    with assms(1) p show False by linarith
  qed
  then show ?thesis by (simp add: round_double_def floor_log2_binade [OF assms] Let_def)
qed

lemma binade_exists:
  assumes "x \<noteq> 0"
  shows "2 powi \<lfloor>log 2 \<bar>x\<bar>\<rfloor> \<le> \<bar>x\<bar> \<and> \<bar>x\<bar> < 2 powi (\<lfloor>log 2 \<bar>x\<bar>\<rfloor> + 1)"
proof -
  have pos: "0 < \<bar>x\<bar>" using assms by simp
  define e where "e = \<lfloor>log 2 \<bar>x\<bar>\<rfloor>"
  have "(2::real) powr real_of_int e = 2 powi e" "(2::real) powr (real_of_int e + 1) = 2 powi (e + 1)"
    using powr_real_of_int' [of "2::real" e] powr_real_of_int' [of "2::real" "e + 1"] by simp_all
  moreover have "2 powr real_of_int e \<le> \<bar>x\<bar> \<and> \<bar>x\<bar> < 2 powr (real_of_int e + 1)"
    using floor_log_eq_powr_iff [of "\<bar>x\<bar>" 2 e] pos by (simp add: e_def)
  ultimately show ?thesis by (simp add: e_def)
qed

lemma round_double_representable:
  assumes "\<bar>m\<bar> < 2 ^ 53"
  shows "round_double (of_int m * 2 powi k) = of_int m * 2 powi k"
proof (cases "m = 0")
  case True
  then show ?thesis by simp
next
  case False
  define x :: real where "x = of_int m * 2 powi k"
  have x0: "x \<noteq> 0" using False by (simp add: x_def)
  define e where "e = \<lfloor>log 2 \<bar>x\<bar>\<rfloor>"
  have b: "2 powi e \<le> \<bar>x\<bar>" "\<bar>x\<bar> < 2 powi (e + 1)"
    using binade_exists [OF x0] by (simp_all add: e_def)
  have "\<bar>x\<bar> = of_int \<bar>m\<bar> * 2 powi k" by (simp add: x_def abs_mult)
  also have "\<dots> < 2 ^ 53 * 2 powi k"
  proof -
    have "real_of_int \<bar>m\<bar> < 2 ^ 53" using assms by (metis of_int_less_numeral_power_cancel_iff)
    then show ?thesis by (intro mult_strict_right_mono) simp_all
  qed
  also have "\<dots> = 2 powi (53 + k)" by (simp add: power_int_add)
  finally have "2 powi e < (2::real) powi (53 + k)" using b(1) by simp
  then have lt: "(2::real) powi e < 2 powi (53 + k)" .
  have "e < 53 + k"
  proof (rule ccontr)
    assume "\<not> e < 53 + k"
    then have "53 + k \<le> e" by simp
    then have "(2::real) powi (53 + k) \<le> 2 powi e" by (rule power_int_increasing) simp
    with lt show False by linarith
  qed
  define j where "j = nat (k - (e - 52))"
  have j: "k = e - 52 + int j" using \<open>e < 53 + k\<close> by (simp add: j_def)
  have "x / 2 powi (e - 52) = of_int m * 2 ^ j"
    by (simp add: x_def j power_int_add)
  also have "\<dots> = of_int (m * 2 ^ j)" by simp
  finally have q: "x / 2 powi (e - 52) = of_int (m * 2 ^ j)" .
  have "round_double x = of_int (round_even (x / 2 powi (e - 52))) * 2 powi (e - 52)"
    using b by (rule round_double_binade)
  also have "\<dots> = of_int m * 2 ^ j * 2 powi (e - 52)"
    unfolding q round_even_of_int by simp
  also have "\<dots> = x" by (simp add: x_def j power_int_add)
  finally show ?thesis by (simp add: x_def)
qed

lemma round_double_of_int: "\<bar>m\<bar> < 2 ^ 53 \<Longrightarrow> round_double (of_int m) = of_int m"
  using round_double_representable [of m 0] by simp

lemma round_double_pos:
  assumes "0 < x"
  shows "0 < round_double x"
proof -
  define e where "e = \<lfloor>log 2 \<bar>x\<bar>\<rfloor>"
  have x0: "x \<noteq> 0" using assms by simp
  have b: "2 powi e \<le> \<bar>x\<bar>" using binade_exists [OF x0] by (simp add: e_def)
  have u: "0 < (2::real) powi (e - 52)" by simp
  have "(2::real) powi e / 2 powi (e - 52) = 2 powi 52" by (simp flip: power_int_diff)
  then have "1 \<le> x / 2 powi (e - 52)"
    using b assms u by (simp add: pos_le_divide_eq power_int_diff)
  then have "1 \<le> \<lfloor>x / 2 powi (e - 52)\<rfloor>" by simp
  then have "0 < round_even (x / 2 powi (e - 52))"
    using round_even_ge_floor [of "x / 2 powi (e - 52)"] by linarith
  then show ?thesis using x0 u by (simp add: round_double_def e_def Let_def)
qed

lemma round_double_numeral:
  "(numeral w :: int) < 2 ^ 53 \<Longrightarrow> round_double (numeral w) = numeral w"
  using round_double_of_int [of "numeral w"] by simp


lemma round_double_one [simp]: "round_double 1 = 1"
  using round_double_of_int [of 1] by simp

lemma round_double_minus_one [simp]: "round_double (- 1) = - 1"
  using round_double_of_int [of "- 1"] by simp

lemma py_float_one [simp]: "py_float 1 = 1"
  by (simp add: py_float_def)

lemma py_float_pos: "1 \<le> F \<Longrightarrow> 0 < py_float F"
  unfolding py_float_def by (rule round_double_pos) simp


section \<open>The functions, one float operation at a time\<close>

text \<open>
  Each lemma takes the results of the single float operations as premises of the form
  \<open>round_double x = y\<close>, so that a concrete run is a list of rounded values.
\<close>

lemma get_min_payment_eval:
  assumes "py_div rate (py_float F) = Inr r"
    and "py_pow (py_add 1 r) (T * F) = Inr pw"
    and "py_div (py_mul P (py_mul r pw)) (py_sub pw 1) = Inr A"
  shows "get_min_payment P rate T F = Inr \<lceil>A\<rceil>"
  by (simp add: get_min_payment_def assms Let_def)

lemma get_min_payment_rate_0: "get_min_payment P 0 T F = Inl ZeroDivisionError"
  by (simp add: get_min_payment_def py_div_def py_pow_def py_add_def py_sub_def py_mul_def
      Let_def)

lemma get_min_payment_no_payments: "get_min_payment P r T 0 = Inl ZeroDivisionError"
  by (simp add: get_min_payment_def py_div_def py_float_def)

lemma interest_due_ok:
  "1 \<le> F \<Longrightarrow> interest_due b r F = Inr (py_mul b (round_double (r / py_float F)))"
  using py_float_pos [of F] by (simp add: interest_due_def py_div_def)

lemma payoff_loop_stop: "b \<le> 0 \<Longrightarrow> payoff_loop r t F b p = Some (Inr p)"
  by (simp add: payoff_loop.simps)

lemma payoff_loop_step:
  "0 < b \<Longrightarrow> interest_due b r F = Inr i \<Longrightarrow>
   payoff_loop r t F b p = payoff_loop r t F (py_sub b (py_sub (round_double t) i)) (p + 1)"
  by (subst payoff_loop.simps) simp

lemma interest_due_eval:
  "1 \<le> F \<Longrightarrow> round_double (r / py_float F) = \<rho> \<Longrightarrow> round_double (b * \<rho>) = i \<Longrightarrow>
   interest_due b r F = Inr i"
  by (simp add: interest_due_ok py_mul_def)

lemma payoff_loop_pass:
  "0 < b \<Longrightarrow> interest_due b r F = Inr i \<Longrightarrow> round_double t = t' \<Longrightarrow>
   round_double (t' - i) = pp \<Longrightarrow> round_double (b - pp) = b' \<Longrightarrow>
   payoff_loop r t F b p = payoff_loop r t F b' (p + 1)"
  using payoff_loop_step [of b r F i t p] by (simp add: py_sub_def)

subsection \<open>A pass that leaves the balance as it was\<close>

lemma payoff_loop_stalls_aux:
  assumes "payoff_loop r t F b p = Some y"
  shows "\<not> (0 < b \<and> (\<exists>i. interest_due b r F = Inr i \<and> py_sub b (py_sub (round_double t) i) = b))"
proof (rule payoff_loop.raw_induct
    [where P = "\<lambda>r t F b p y.
       \<not> (0 < b \<and> (\<exists>i. interest_due b r F = Inr i \<and> py_sub b (py_sub (round_double t) i) = b))",
     OF _ assms])
  fix loop :: "real \<Rightarrow> real \<Rightarrow> int \<Rightarrow> real \<Rightarrow> int \<Rightarrow> (py_error + int) option"
  fix r t :: real and F :: int and b :: real and p :: int and y :: "py_error + int"
  assume IH: "\<And>r t F b p y. loop r t F b p = Some y \<Longrightarrow>
    \<not> (0 < b \<and> (\<exists>i. interest_due b r F = Inr i \<and> py_sub b (py_sub (round_double t) i) = b))"
  assume body: "(if 0 < b then
                   (case interest_due b r F of
                      Inl e \<Rightarrow> Some (Inl e)
                    | Inr interest \<Rightarrow>
                        (let principal_payment = py_sub (round_double t) interest in
                         loop r t F (py_sub b principal_payment) (p + 1)))
                 else Some (Inr p)) = Some y"
  show "\<not> (0 < b \<and> (\<exists>i. interest_due b r F = Inr i \<and> py_sub b (py_sub (round_double t) i) = b))"
  proof
    assume a: "0 < b \<and> (\<exists>i. interest_due b r F = Inr i \<and> py_sub b (py_sub (round_double t) i) = b)"
    then obtain i where i: "interest_due b r F = Inr i" "py_sub b (py_sub (round_double t) i) = b"
      by blast
    from a i body have "loop r t F b (p + 1) = Some y" by simp
    from IH [OF this] a show False by blast
  qed
qed

lemma payoff_loop_stalls:
  "0 < b \<Longrightarrow> interest_due b r F = Inr i \<Longrightarrow> py_sub b (py_sub (round_double t) i) = b \<Longrightarrow>
   payoff_loop r t F b p = None"
  using payoff_loop_stalls_aux [of r t F b p] by (cases "payoff_loop r t F b p") auto

lemma payoff_loop_stall:
  "0 < b \<Longrightarrow> interest_due b r F = Inr i \<Longrightarrow> round_double t = t' \<Longrightarrow>
   round_double (t' - i) = pp \<Longrightarrow> round_double (b - pp) = b \<Longrightarrow>
   payoff_loop r t F b p = None"
  using payoff_loop_stalls [of b r F i t p] by (simp add: py_sub_def)

subsection \<open>Passes that do not round\<close>





section \<open>Runs on concrete inputs\<close>

subsection \<open>Small integers\<close>







subsection \<open>A rate of three times two to the power -54\<close>

lemma get_min_payment_tiny_rate: "get_min_payment 1000000 (3 / 2 ^ 54) 1 1 = Inr 750001"
proof -
  have r: "py_div (3 / 2 ^ 54) (py_float 1) = Inr (3 / 2 ^ 54)"
    using round_double_representable [of 3 "- 54"] by (simp add: py_div_def)
  have x: "py_add 1 (3 / 2 ^ 54) = 1 + 1 / 2 ^ 52"
    using round_double_binade [of 0 "1 + 3 / 2 ^ 54"] by (simp add: py_add_def round_even_def)
  have "round_double (1 + 1 / 2 ^ 52) = 1 + 1 / 2 ^ 52"
    using round_double_representable [of "2 ^ 52 + 1" "- 52"] by (simp add: field_simps)
  then have pw: "py_pow (py_add 1 (3 / 2 ^ 54)) (1 * 1) = Inr (1 + 1 / 2 ^ 52)"
    unfolding x by (simp add: py_pow_def)
  have m1: "py_mul (3 / 2 ^ 54) (1 + 1 / 2 ^ 52) = 3 / 2 ^ 54 + 1 / 2 ^ 104"
    using round_double_binade [of "- 53" "3 / 2 ^ 54 * (1 + 1 / 2 ^ 52)"]
    by (simp add: py_mul_def round_even_def)
  have m2: "py_mul 1000000 (3 / 2 ^ 54 + 1 / 2 ^ 104) = 3000000 / 2 ^ 54 + 1 / 2 ^ 84"
    using round_double_binade [of "- 33" "1000000 * (3 / 2 ^ 54 + 1 / 2 ^ 104)"]
    by (simp add: py_mul_def round_even_def)
  have d: "py_sub (1 + 1 / 2 ^ 52) 1 = 1 / 2 ^ 52"
    using round_double_representable [of 1 "- 52"] by (simp add: py_sub_def)
  have q: "py_div (py_mul 1000000 (py_mul (3 / 2 ^ 54) (1 + 1 / 2 ^ 52))) (py_sub (1 + 1 / 2 ^ 52) 1)
             = Inr (750000 + 1 / 2 ^ 32)"
    unfolding m1 m2 d
    using round_double_representable [of "750000 * 2 ^ 32 + 1" "- 32"]
    by (simp add: py_div_def field_simps)
  have "get_min_payment 1000000 (3 / 2 ^ 54) 1 1 = Inr \<lceil>750000 + 1 / 2 ^ 32 :: real\<rceil>"
    using r pw q by (rule get_min_payment_eval)
  then show ?thesis by simp
qed

lemma remaining_payments_tiny_rate:
  "remaining_payments 1000000 (3 / 2 ^ 54) 750001 1 = Some (Inr 2)"
proof -
  have rho: "round_double (3 / 2 ^ 54 / py_float 1) = 3 / 2 ^ 54"
    using round_double_representable [of 3 "- 54"] by simp
  have t: "round_double 750001 = 750001"
    by (simp add: round_double_numeral)
  have m1: "round_double (1000000 * (3 / 2 ^ 54)) = 3000000 / 2 ^ 54"
    using round_double_representable [of 3000000 "- 54"] by simp
  have i1: "interest_due 1000000 (3 / 2 ^ 54) 1 = Inr (3000000 / 2 ^ 54)"
    by (rule interest_due_eval [OF _ rho m1]) simp
  have p1: "round_double (750001 - 3000000 / 2 ^ 54) = 750001 - 1 / 2 ^ 33"
    using round_double_binade [of 19 "750001 - 3000000 / 2 ^ 54"]
    by (simp add: round_even_def)
  have b1: "round_double (1000000 - (750001 - 1 / 2 ^ 33)) = 249999 + 1 / 2 ^ 33"
    using round_double_representable [of "249999 * 2 ^ 33 + 1" "- 33"]
    by (simp add: field_simps)
  have s1: "payoff_loop (3 / 2 ^ 54) 750001 1 1000000 0
              = payoff_loop (3 / 2 ^ 54) 750001 1 (249999 + 1 / 2 ^ 33) (0 + 1)"
    by (rule payoff_loop_pass [OF _ i1 t p1 b1]) simp
  have m2: "round_double ((249999 + 1 / 2 ^ 33) * (3 / 2 ^ 54)) = 6442425174196227 / 2 ^ 87"
    using round_double_binade [of "- 35" "(249999 + 1 / 2 ^ 33) * (3 / 2 ^ 54)"]
    by (simp add: round_even_def)
  have i2: "interest_due (249999 + 1 / 2 ^ 33) (3 / 2 ^ 54) 1
                   = Inr (6442425174196227 / 2 ^ 87)"
    by (rule interest_due_eval [OF _ rho m2]) simp
  have p2: "round_double (750001 - 6442425174196227 / 2 ^ 87) = 750001"
    using round_double_binade [of 19 "750001 - 6442425174196227 / 2 ^ 87"]
    by (simp add: round_even_def)
  have b2: "round_double (249999 + 1 / 2 ^ 33 - 750001) = - 500002 + 1 / 2 ^ 33"
    using round_double_representable [of "- 500002 * 2 ^ 33 + 1" "- 33"]
    by (simp add: field_simps)
  have s2: "payoff_loop (3 / 2 ^ 54) 750001 1 (249999 + 1 / 2 ^ 33) (0 + 1)
              = payoff_loop (3 / 2 ^ 54) 750001 1 (- 500002 + 1 / 2 ^ 33) (0 + 1 + 1)"
    by (rule payoff_loop_pass [OF _ i2 t p2 b2]) simp
  have "payoff_loop (3 / 2 ^ 54) 750001 1 (- 500002 + 1 / 2 ^ 33) (0 + 1 + 1) = Some (Inr (0 + 1 + 1))"
    by (rule payoff_loop_stop) simp
  with s1 s2 show ?thesis by (simp add: remaining_payments_def)
qed

subsection \<open>Balances whose last bit is worth more than the payment\<close>

lemma never_returns_1e20: "remaining_payments 100000000000000000000 0 1 1 = None"
proof -
  have rho: "round_double (0 / py_float 1) = 0" by simp
  have m: "round_double (100000000000000000000 * 0) = 0" by simp
  have i: "interest_due 100000000000000000000 0 1 = Inr 0"
    by (rule interest_due_eval [OF _ rho m]) simp
  have t: "round_double 1 = 1" by simp
  have pp: "round_double (1 - 0) = 1" by simp
  have b: "round_double (100000000000000000000 - 1) = 100000000000000000000"
    using round_double_binade [of 66 "100000000000000000000 - 1"] by (simp add: round_even_def)
  show ?thesis
    unfolding remaining_payments_def by (rule payoff_loop_stall [OF _ i t pp b]) simp
qed

lemma min_payment_54_years: "get_min_payment 1000 1 54 1 = Inr 1000"
proof -
  have r: "py_div 1 (py_float 1) = Inr 1" by (simp add: py_div_def)
  have x: "py_add 1 1 = 2" by (simp add: py_add_def round_double_numeral)
  have "round_double (2 ^ 54) = 2 ^ 54"
    using round_double_representable [of 1 54] by simp
  then have pw: "py_pow (py_add 1 1) (54 * 1) = Inr (2 ^ 54)"
    unfolding x by (simp add: py_pow_def py_float_def round_double_numeral)
  have m1: "py_mul 1 (2 ^ 54) = 2 ^ 54"
    using round_double_representable [of 1 54] by (simp add: py_mul_def)
  have m2: "py_mul 1000 (2 ^ 54) = 1000 * 2 ^ 54"
    using round_double_representable [of 1000 54] by (simp add: py_mul_def)
  have d: "py_sub (2 ^ 54) 1 = 2 ^ 54"
    using round_double_binade [of 53 "2 ^ 54 - 1"] by (simp add: py_sub_def round_even_def)
  have q: "py_div (py_mul 1000 (py_mul 1 (2 ^ 54))) (py_sub (2 ^ 54) 1) = Inr 1000"
    unfolding m1 m2 d by (simp add: py_div_def round_double_numeral)
  have "get_min_payment 1000 1 54 1 = Inr \<lceil>1000 :: real\<rceil>"
    using r pw q by (rule get_min_payment_eval)
  then show ?thesis by simp
qed

lemma never_returns_54_years: "remaining_payments 1000 1 1000 1 = None"
proof -
  have rho: "round_double (1 / py_float 1) = 1" by simp
  have m: "round_double (1000 * 1) = 1000" by (simp add: round_double_numeral)
  have i: "interest_due 1000 1 1 = Inr 1000"
    by (rule interest_due_eval [OF _ rho m]) simp
  have t: "round_double 1000 = 1000" by (simp add: round_double_numeral)
  have pp: "round_double (1000 - 1000) = 0" by simp
  have b: "round_double (1000 - 0) = 1000" by (simp add: round_double_numeral)
  show ?thesis
    unfolding remaining_payments_def by (rule payoff_loop_stall [OF _ i t pp b]) simp
qed

lemma min_payment_200_years: "get_min_payment (2 ^ 60) (1 / 4) 200 1 = Inr (2 ^ 58)"
proof -
  have "round_double (1 / 4) = 1 / 4"
    using round_double_representable [of 1 "- 2"] by simp
  then have r: "py_div (1 / 4) (py_float 1) = Inr (1 / 4)" by (simp add: py_div_def)
  have x: "py_add 1 (1 / 4) = 5 / 4"
    using round_double_representable [of 5 "- 2"] by (simp add: py_add_def)
  have "round_double ((5 / 4) ^ 200) = 5883593420661338 * 2 ^ 12"
    using round_double_binade [of 64 "(5 / 4) ^ 200"] by (simp add: round_even_def power_divide)
  then have pw: "py_pow (py_add 1 (1 / 4)) (200 * 1) = Inr (5883593420661338 * 2 ^ 12)"
    unfolding x by (simp add: py_pow_def py_float_def round_double_numeral)
  have m1: "py_mul (1 / 4) (5883593420661338 * 2 ^ 12) = 5883593420661338 * 2 ^ 10"
    using round_double_representable [of 5883593420661338 10] by (simp add: py_mul_def)
  have m2: "py_mul (2 ^ 60) (5883593420661338 * 2 ^ 10) = 5883593420661338 * 2 ^ 70"
    using round_double_representable [of 5883593420661338 70] by (simp add: py_mul_def)
  have d: "py_sub (5883593420661338 * 2 ^ 12) 1 = 5883593420661338 * 2 ^ 12"
    using round_double_binade [of 64 "5883593420661338 * 2 ^ 12 - 1"]
    by (simp add: py_sub_def round_even_def)
  have "round_double (2 ^ 58) = 2 ^ 58"
    using round_double_representable [of 1 58] by simp
  then have q: "py_div (py_mul (2 ^ 60) (py_mul (1 / 4) (5883593420661338 * 2 ^ 12)))
                  (py_sub (5883593420661338 * 2 ^ 12) 1) = Inr (2 ^ 58)"
    unfolding m1 m2 d by (simp add: py_div_def)
  have "get_min_payment (2 ^ 60) (1 / 4) 200 1 = Inr \<lceil>2 ^ 58 :: real\<rceil>"
    using r pw q by (rule get_min_payment_eval)
  then show ?thesis by simp
qed

lemma never_returns_200_years: "remaining_payments (2 ^ 60) (1 / 4) (2 ^ 58 + 64) 1 = None"
proof -
  have rho: "round_double (1 / 4 / py_float 1) = 1 / 4"
    using round_double_representable [of 1 "- 2"] by simp
  have m: "round_double (2 ^ 60 * (1 / 4)) = 2 ^ 58"
    using round_double_representable [of 1 58] by simp
  have i: "interest_due (2 ^ 60) (1 / 4) 1 = Inr (2 ^ 58)"
    by (rule interest_due_eval [OF _ rho m]) simp
  have t: "round_double (2 ^ 58 + 64) = 2 ^ 58 + 64"
    using round_double_representable [of "2 ^ 52 + 1" 6] by simp
  have pp: "round_double (2 ^ 58 + 64 - 2 ^ 58) = 64" by (simp add: round_double_numeral)
  have b: "round_double (2 ^ 60 - 64) = 2 ^ 60"
    using round_double_binade [of 59 "2 ^ 60 - 64"] by (simp add: round_even_def)
  show ?thesis
    unfolding remaining_payments_def by (rule payoff_loop_stall [OF _ i t pp b]) simp
qed

lemma pass_1e20:
  "interest_due 100000000000000000000 0 1 = Inr 0"
  "py_sub (round_double 1) 0 = 1"
  "py_sub 100000000000000000000 1 = 100000000000000000000"
proof -
  have rho: "round_double (0 / py_float 1) = 0" by simp
  have m: "round_double (100000000000000000000 * 0) = 0" by simp
  show "interest_due 100000000000000000000 0 1 = Inr 0"
    by (rule interest_due_eval [OF _ rho m]) simp
  show "py_sub (round_double 1) 0 = 1" by (simp add: py_sub_def)
  show "py_sub 100000000000000000000 1 = 100000000000000000000"
    using round_double_binade [of 66 "100000000000000000000 - 1"]
    by (simp add: py_sub_def round_even_def)
qed

lemma pass_200_years:
  "interest_due (2 ^ 60) (1 / 4) 1 = Inr (2 ^ 58)"
  "py_sub (round_double (2 ^ 58 + 64)) (2 ^ 58) = 64"
  "py_sub (2 ^ 60) 64 = 2 ^ 60"
proof -
  have rho: "round_double (1 / 4 / py_float 1) = 1 / 4"
    using round_double_representable [of 1 "- 2"] by simp
  have m: "round_double (2 ^ 60 * (1 / 4)) = 2 ^ 58"
    using round_double_representable [of 1 58] by simp
  show "interest_due (2 ^ 60) (1 / 4) 1 = Inr (2 ^ 58)"
    by (rule interest_due_eval [OF _ rho m]) simp
  have t: "round_double (2 ^ 58 + 64) = 2 ^ 58 + 64"
    using round_double_representable [of "2 ^ 52 + 1" 6] by simp
  show "py_sub (round_double (2 ^ 58 + 64)) (2 ^ 58) = 64"
    unfolding t by (simp add: py_sub_def round_double_numeral)
  show "py_sub (2 ^ 60) 64 = 2 ^ 60"
    using round_double_binade [of 59 "2 ^ 60 - 64"] by (simp add: py_sub_def round_even_def)
qed

lemma annuity_200_years: "annuity (1 / 4) 200 (2 ^ 60) \<le> 2 ^ 58 + 64"
  by (simp add: annuity_def power_divide field_simps)

section \<open>Properties\<close>

subsection \<open>The minimum payment at rate zero\<close>

text \<open>
  C1. The claim: with an annual rate of 0, \<open>get_min_payment\<close> treats the rate of one
  period 0 as a case of its own and returns the ceiling of \<open>P / (T * F)\<close>. The code has
  no such case. The rate of one period is 0, both powers are 1, the denominator
  \<open>(1 + r) ** n - 1\<close> is 0, and the division raises \<^verbatim>\<open>ZeroDivisionError\<close>, for every
  principal, term and number of payments per year (with 0 payments per year the first
  division raises it already).
\<close>

theorem get_min_payment_zero_rate:
  "get_min_payment P 0 T F = Inl ZeroDivisionError"
  by (rule get_min_payment_rate_0)

subsection \<open>Validation of the payments per year\<close>

text \<open>
  C2. The claim: \<open>parse_args\<close> rejects 0 payments per year with a \<^verbatim>\<open>ValueError\<close>. The
  test in the code is \<^verbatim>\<open>args.num_annual_payments < 0\<close>, which 0 passes: for a mortgage
  of 1000 at rate 0.5 over 30 years with 0 payments per year the namespace is
  returned, and \<open>main\<close> on it raises \<^verbatim>\<open>ZeroDivisionError\<close> before it prints.
\<close>

theorem parse_args_accepts_zero_payments:
  "parse_args
     (\<lambda>argv. Inr \<lparr>mortgage_amount = 1000, annual_interest_rate = 1 / 2, years = 30,
                   num_annual_payments = 0, target_payment = None\<rparr>) sys_argv arglist
   = Inr \<lparr>mortgage_amount = 1000, annual_interest_rate = 1 / 2, years = 30,
          num_annual_payments = 0, target_payment = None\<rparr>
   \<and> main 1000 (1 / 2) 30 0 None = Some ([], Some ZeroDivisionError)"
  by (simp add: parse_args_def main_def get_min_payment_no_payments)

subsection \<open>The default target payment\<close>


text \<open>
  The ceiling is the design; rounding adds two more ways off \<open>T * F\<close>. At a rate of
  \<open>3 / 2 ^ 54\<close> the sum \<open>1 + r\<close> keeps one bit of the rate, the formula gives 750001 for a
  principal of 1000000 due in one payment, and the report counts 2 payments. At rate 1
  over 54 years \<open>2 ^ 54 - 1\<close> rounds to \<open>2 ^ 54\<close>, the formula gives the interest of the
  first payment, 1000, and the loop never returns.
\<close>

lemma main_default_exceeds_term:
  "main 1000000 (3 / 2 ^ 54) 1 1 None = Some ([MinimumPayment 750001, Payoff 750001 2], None)"
  using get_min_payment_tiny_rate remaining_payments_tiny_rate by (simp add: main_def)

lemma main_default_never_returns: "main 1000 1 54 1 None = None"
  using min_payment_54_years never_returns_54_years by (simp add: main_def)



subsection \<open>Paying at least the minimum\<close>

text \<open>
  C4. The claim: for \<open>P \<ge> 0\<close>, a rate in \<open>(0, 1]\<close>, \<open>T \<ge> 1\<close>, \<open>F \<ge> 1\<close> and a target payment
  of at least the minimum payment, \<open>remaining_payments\<close> returns at most \<open>T * F\<close>. For a
  principal of 1000000 at the rate \<open>3 / 2 ^ 54\<close> (the double \<^verbatim>\<open>1.6653345369377348e-16\<close>)
  over 1 year with 1 payment per year, \<open>get_min_payment\<close> returns 750001, less than the
  principal, and with that payment the loop returns 2, more than \<open>T * F = 1\<close>.
\<close>

theorem payoff_exceeds_term:
  "(0::real) \<le> 1000000 \<and> (0::real) < 3 / 2 ^ 54 \<and> (3 / 2 ^ 54 :: real) \<le> 1
   \<and> get_min_payment 1000000 (3 / 2 ^ 54) 1 1 = Inr 750001
   \<and> real_of_int 750001 \<le> 750001
   \<and> remaining_payments 1000000 (3 / 2 ^ 54) 750001 1 = Some (Inr 2)
   \<and> \<not> (2::int) \<le> 1 * 1"
  using get_min_payment_tiny_rate remaining_payments_tiny_rate by simp

subsection \<open>The minimum payment repays the principal\<close>

text \<open>
  C5. The claim: for \<open>P \<ge> 0\<close>, a rate in \<open>[0, 1]\<close>, \<open>T \<ge> 1\<close> and \<open>F \<ge> 1\<close>, the minimum
  payment times \<open>T * F\<close> is at least \<open>P\<close>. At rate 0 there is no minimum payment: for a
  principal of 12000 over 1 year with 12 payments per year the call raises
  \<^verbatim>\<open>ZeroDivisionError\<close>, where the claim asks for a payment of at least 1000.
\<close>

theorem get_min_payment_zero_rate_no_payment:
  "get_min_payment 12000 0 1 12 = Inl ZeroDivisionError
   \<and> \<not> (\<exists>m. get_min_payment 12000 0 1 12 = Inr m \<and> (12000::real) \<le> of_int (m * (1 * 12)))"
  by (simp add: get_min_payment_rate_0)

subsection \<open>The guard of the report\<close>



subsection \<open>Termination of the payoff loop\<close>

text \<open>
  C7. The claim: for a balance \<open>B > 0\<close>, a rate in \<open>[0, 1]\<close>, \<open>F \<ge> 1\<close> and a target payment
  whose principal part is positive at every pass, the loop of \<open>remaining_payments\<close>
  ends and returns a count. Two runs where it does not. With a balance of \<^verbatim>\<open>1e20\<close>,
  rate 0 and payment 1 the interest is 0 and the principal part 1, but \<open>1e20 - 1\<close>
  rounds to \<^verbatim>\<open>1e20\<close>: every pass starts from the same balance and the loop never
  returns. With a balance of \<open>2 ^ 60\<close>, rate 0.25, 1 payment per year and the payment
  \<open>2 ^ 58 + 64\<close> (at least the minimum payment \<open>2 ^ 58\<close> for 200 years, and at least the
  exact annuity) the interest is \<open>2 ^ 58\<close> and the principal part 64, \<open>2 ^ 60 - 64\<close>
  rounds to \<open>2 ^ 60\<close>, and neither the loop nor \<open>main\<close> returns.
\<close>

theorem payoff_loop_never_returns:
  "interest_due 100000000000000000000 0 1 = Inr 0
   \<and> py_sub (round_double 1) 0 = 1
   \<and> py_sub 100000000000000000000 1 = 100000000000000000000
   \<and> remaining_payments 100000000000000000000 0 1 1 = None
   \<and> get_min_payment (2 ^ 60) (1 / 4) 200 1 = Inr (2 ^ 58)
   \<and> annuity (1 / 4) 200 (2 ^ 60) \<le> 2 ^ 58 + 64
   \<and> interest_due (2 ^ 60) (1 / 4) 1 = Inr (2 ^ 58)
   \<and> py_sub (round_double (2 ^ 58 + 64)) (2 ^ 58) = 64
   \<and> py_sub (2 ^ 60) 64 = 2 ^ 60
   \<and> remaining_payments (2 ^ 60) (1 / 4) (2 ^ 58 + 64) 1 = None
   \<and> main (2 ^ 60) (1 / 4) 200 1 (Some (2 ^ 58 + 64)) = None"
proof -
  have "main (2 ^ 60) (1 / 4) 200 1 (Some (2 ^ 58 + 64)) = None"
    using min_payment_200_years never_returns_200_years by (simp add: main_def)
  then show ?thesis
    by (simp only: pass_1e20 pass_200_years never_returns_1e20 never_returns_200_years
        min_payment_200_years annuity_200_years simp_thms)
qed

subsection \<open>Exit status of the script\<close>

text \<open>
  What holds of C8: when \<open>parse_args\<close> raises a \<^verbatim>\<open>ValueError\<close> the script prints the
  message alone and exits with status 1, and each of the five tests raises one.
\<close>

lemma script_validation_failure:
  assumes "parser (drop 1 sys_argv) = Inr a"
    and "mortgage_amount a < 0 \<or> annual_interest_rate a < 0 \<or> 1 < annual_interest_rate a
         \<or> years a < 1 \<or> num_annual_payments a < 0
         \<or> (\<exists>t. target_payment a = Some t \<and> t < 0)"
  shows "\<exists>e. parse_args parser sys_argv arglist = Inl (ValueError e)
           \<and> script parser sys_argv = Some \<lparr>stdout = [], stderr = [Message e], status = 1\<rparr>"
  using assms by (auto simp: script_def parse_args_def)

text \<open>
  C8. The claim: every input that fails validation ends with a non-zero status after
  the message alone, and every valid input prints the report and exits with status 0.
  The second half fails on inputs that pass validation: a mortgage of 12000 at rate 0
  over 1 year with 12 payments per year, and a mortgage of 1000 at rate 0.5 over 30
  years with 0 payments per year, both end in \<^verbatim>\<open>ZeroDivisionError\<close>, which nothing
  catches: no report, a stack trace, status 1.
\<close>

theorem script_crashes_on_valid_input:
  "script
     (\<lambda>argv. Inr \<lparr>mortgage_amount = 12000, annual_interest_rate = 0, years = 1,
                   num_annual_payments = 12, target_payment = None\<rparr>) sys_argv
   = Some \<lparr>stdout = [], stderr = [Traceback ZeroDivisionError], status = 1\<rparr>
   \<and> script
     (\<lambda>argv. Inr \<lparr>mortgage_amount = 1000, annual_interest_rate = 1 / 2, years = 30,
                   num_annual_payments = 0, target_payment = None\<rparr>) sys_argv
   = Some \<lparr>stdout = [], stderr = [Traceback ZeroDivisionError], status = 1\<rparr>"
  by (simp add: script_def parse_args_def main_def get_min_payment_rate_0
      get_min_payment_no_payments)

subsection \<open>The unused parameter of the validation\<close>

text \<open>
  C9. The result of \<open>parse_args\<close> does not depend on its parameter \<open>arglist\<close>: under the
  same \<^verbatim>\<open>sys.argv\<close>, any two argument lists give the same result, since the parser
  is run on \<^verbatim>\<open>sys.argv[1:]\<close>.
\<close>

theorem parse_args_ignores_arglist:
  "parse_args parser sys_argv arglist1 = parse_args parser sys_argv arglist2"
  by (simp add: parse_args_def)

subsection \<open>A balance that is already paid\<close>

text \<open>
  C10. For every starting balance less than or equal to 0, and any rate, target payment
  and payments per year, \<open>remaining_payments\<close> returns 0: the loop condition fails at
  once, no iteration runs, and \<open>interest_due\<close> is not called (the result is 0 also with
  0 payments per year, where \<open>interest_due\<close> would raise).
\<close>

theorem remaining_payments_nonpositive_balance:
  "B \<le> 0 \<Longrightarrow> remaining_payments B r t F = Some (Inr 0)"
  by (simp add: remaining_payments_def payoff_loop.simps)

theorem remaining_payments_nonpositive_balance_witness:
  "(-5::real) \<le> 0 \<and> remaining_payments (-5) (1/2) 100 0 = Some (Inr 0)"
  using remaining_payments_nonpositive_balance [of "-5" "1/2" 100 0] by simp

end
